theory Spec2Isabelle
  imports Main
begin

section \<open>The input datasets\<close>

text \<open>
  \<^verbatim>\<open>etl.py\<close> reads two JSON dataset trees with \<^verbatim>\<open>spark.read.json\<close>. A field that a JSON
  record lacks is a null of the data frame, so every column is an \<open>option\<close>. The type
  variable \<open>'f\<close> stands for the engine's double values (duration, latitude, longitude):
  the script never computes with them, it only projects them and lets
  \<^verbatim>\<open>dropDuplicates\<close> compare them.
\<close>

record 'f song_rec =
  song_id :: "string option"
  title :: "string option"
  artist_id :: "string option"
  song_year :: "int option"
  duration :: "'f option"
  artist_name :: "string option"
  artist_location :: "string option"
  artist_latitude :: "'f option"
  artist_longitude :: "'f option"

record log_rec =
  userId :: "string option"
  firstName :: "string option"
  lastName :: "string option"
  gender :: "string option"
  level :: "string option"
  page :: "string option"
  ts :: "int option"
  song :: "string option"
  sessionId :: "int option"
  location :: "string option"
  userAgent :: "string option"

section \<open>The engine's SQL functions\<close>

text \<open>
  The calendar functions belong to the query engine, not to the script, and what
  \<^verbatim>\<open>from_unixtime\<close> renders depends on the session's time zone. They are a parameter of
  the model: \<open>'t\<close> is the rendered timestamp, compared by \<^verbatim>\<open>GROUP BY\<close> with equality.
  Each function maps null to null, which \<open>map_option\<close> writes out below.
\<close>

record 't sql_functions =
  from_unixtime :: "int \<Rightarrow> 't"
  hour :: "'t \<Rightarrow> int"
  day :: "'t \<Rightarrow> int"
  weekofyear :: "'t \<Rightarrow> int"
  month :: "'t \<Rightarrow> int"
  year :: "'t \<Rightarrow> int"
  dayofweek :: "'t \<Rightarrow> int"

text \<open>
  \<^verbatim>\<open>ts/1000\<close> is a division of doubles, and \<^verbatim>\<open>from_unixtime\<close> casts its argument to a
  long, which truncates towards zero. On the milliseconds of a log (far below
  \<open>2 ^ 53\<close>) that is the integer quotient truncated towards zero.
\<close>

definition ts_div_1000 :: "int \<Rightarrow> int" where
  "ts_div_1000 t = (if 0 \<le> t then t div 1000 else - ((- t) div 1000))"

definition start_time_of :: "'t sql_functions \<Rightarrow> log_rec \<Rightarrow> 't option" where
  "start_time_of fns l = map_option (\<lambda>t. from_unixtime fns (ts_div_1000 t)) (ts l)"

section \<open>The output tables\<close>

record 'f songs_row =
  songs_song_id :: "string option"
  songs_title :: "string option"
  songs_artist_id :: "string option"
  songs_year :: "int option"
  songs_duration :: "'f option"

record 'f artists_row =
  artists_artist_id :: "string option"
  artists_artist_name :: "string option"
  artists_artist_location :: "string option"
  artists_artist_latitude :: "'f option"
  artists_artist_longitude :: "'f option"

record user_row =
  user_userId :: "string option"
  user_firstName :: "string option"
  user_lastName :: "string option"
  user_gender :: "string option"
  user_level :: "string option"

record 't time_row =
  time_start_time :: "'t option"
  time_hour :: "int option"
  time_day :: "int option"
  time_week :: "int option"
  time_month :: "int option"
  time_year :: "int option"
  time_weekday :: "int option"

record 't songplays_row =
  songplay_id :: int
  sp_start_time :: "'t option"
  sp_user_id :: "string option"
  sp_level :: "string option"
  sp_song_id :: "string option"
  sp_artist_id :: "string option"
  sp_session_id :: "int option"
  sp_location :: "string option"
  sp_user_agent :: "string option"
  sp_year :: "int option"
  sp_month :: "int option"

subsection \<open>process_song_data: songs and artists\<close>

text \<open>
  A data frame is a list of rows; \<^verbatim>\<open>dropDuplicates()\<close> with no column list keeps one
  copy of every row, which is \<open>remdups\<close>. The engine fixes no row order, and no
  statement below depends on one.
\<close>

definition select_songs :: "'f song_rec \<Rightarrow> 'f songs_row" where
  "select_songs s =
     \<lparr>songs_song_id = song_id s, songs_title = title s, songs_artist_id = artist_id s,
      songs_year = song_year s, songs_duration = duration s\<rparr>"

definition songs_table :: "'f song_rec list \<Rightarrow> 'f songs_row list" where
  "songs_table df = remdups (map select_songs df)"

definition select_artists :: "'f song_rec \<Rightarrow> 'f artists_row" where
  "select_artists s =
     \<lparr>artists_artist_id = artist_id s, artists_artist_name = artist_name s,
      artists_artist_location = artist_location s,
      artists_artist_latitude = artist_latitude s,
      artists_artist_longitude = artist_longitude s\<rparr>"

definition artists_table :: "'f song_rec list \<Rightarrow> 'f artists_row list" where
  "artists_table df = remdups (map select_artists df)"

subsection \<open>process_log_data: users, time and songplays\<close>

text \<open>
  \<^verbatim>\<open>df.filter(df['page'] == 'NextSong')\<close>: the comparison of a null page is null, and
  the filter keeps the rows whose condition is true.
\<close>

definition next_song :: "log_rec \<Rightarrow> bool" where
  "next_song l = (page l = Some ''NextSong'')"

definition filter_logs :: "log_rec list \<Rightarrow> log_rec list" where
  "filter_logs df = filter next_song df"

definition select_user :: "log_rec \<Rightarrow> user_row" where
  "select_user l =
     \<lparr>user_userId = userId l, user_firstName = firstName l, user_lastName = lastName l,
      user_gender = gender l, user_level = level l\<rparr>"

definition user_table :: "log_rec list \<Rightarrow> user_row list" where
  "user_table df = remdups (map select_user (filter_logs df))"

text \<open>
  The inner query of the time table groups the view \<^verbatim>\<open>logs\<close> (the filtered frame) by
  the alias \<^verbatim>\<open>start_time\<close>: one row for each value of \<^verbatim>\<open>from_unixtime(ts/1000)\<close>, the
  nulls forming one group. The outer query derives the calendar columns from it.
\<close>

definition time_of :: "'t sql_functions \<Rightarrow> 't option \<Rightarrow> 't time_row" where
  "time_of fns st =
     \<lparr>time_start_time = st,
      time_hour = map_option (hour fns) st,
      time_day = map_option (day fns) st,
      time_week = map_option (weekofyear fns) st,
      time_month = map_option (month fns) st,
      time_year = map_option (year fns) st,
      time_weekday = map_option (dayofweek fns) st\<rparr>"

definition time_table :: "'t sql_functions \<Rightarrow> log_rec list \<Rightarrow> 't time_row list" where
  "time_table fns df =
     map (time_of fns) (remdups (map (start_time_of fns) (filter_logs df)))"

text \<open>
  \<^verbatim>\<open>logs l LEFT JOIN songs s ON l.song = s.title\<close>: a log row is paired with every song
  row whose title equals its song (an equality with a null on either side is not
  true), and with nulls for the song columns when there is none.
\<close>

definition join_on :: "log_rec \<Rightarrow> 'f song_rec \<Rightarrow> bool" where
  "join_on l s = (song l \<noteq> None \<and> song l = title s)"

definition join_rows :: "log_rec \<Rightarrow> 'f song_rec list \<Rightarrow> (log_rec \<times> 'f song_rec option) list" where
  "join_rows l songs =
     (case filter (join_on l) songs of
        [] \<Rightarrow> [(l, None)]
      | s # ss \<Rightarrow> map (\<lambda>s'. (l, Some s')) (s # ss))"

definition left_join :: "log_rec list \<Rightarrow> 'f song_rec list \<Rightarrow> (log_rec \<times> 'f song_rec option) list" where
  "left_join logs songs = concat (map (\<lambda>l. join_rows l songs) logs)"

text \<open>
  \<^verbatim>\<open>monotonically_increasing_id()\<close> numbers the rows of the result: the partition index
  in the upper bits, the row's number within its partition in the lower 33. The model
  keeps the joined rows in one partition.
\<close>

definition monotonically_increasing_id :: "nat \<Rightarrow> nat \<Rightarrow> int" where
  "monotonically_increasing_id p i = int p * 2 ^ 33 + int i"

definition select_songplay ::
  "'t sql_functions \<Rightarrow> nat \<Rightarrow> log_rec \<times> 'f song_rec option \<Rightarrow> 't songplays_row" where
  "select_songplay fns i ls =
     (case ls of (l, s) \<Rightarrow>
       \<lparr>songplay_id = monotonically_increasing_id 0 i,
        sp_start_time = start_time_of fns l,
        sp_user_id = userId l,
        sp_level = level l,
        sp_song_id = Option.bind s song_id,
        sp_artist_id = Option.bind s artist_id,
        sp_session_id = sessionId l,
        sp_location = location l,
        sp_user_agent = userAgent l,
        sp_year = map_option (year fns) (start_time_of fns l),
        sp_month = map_option (month fns) (start_time_of fns l)\<rparr>)"

definition songplays_table ::
  "'t sql_functions \<Rightarrow> log_rec list \<Rightarrow> 'f song_rec list \<Rightarrow> 't songplays_row list" where
  "songplays_table fns df song_df =
     (let joined = left_join (filter_logs df) song_df
      in map (\<lambda>(i, ls). select_songplay fns i ls) (zip [0..<length joined] joined))"

section \<open>Running the script\<close>

text \<open>
  As shipped, \<^verbatim>\<open>etl.py\<close> is rejected by Python's parser (line 41 and lines 105 to 107),
  so no statement of it runs. This section embeds the statements as they read with the
  parenthesis of line 41 restored and with the meaning of lines 105 to 107 left open.
\<close>

datatype error =
    KeyError string
  | TypeError string
  | AttributeError string
  | AnalysisException
  | EngineError string

subsection \<open>Module level: the credentials (lines 9 to 13)\<close>

text \<open>
  \<^verbatim>\<open>config.read('dl.cfg')\<close> leaves the parser holding the file's sections, each a list of
  options. \<^verbatim>\<open>config[key]\<close> looks up a section: it raises \<^verbatim>\<open>KeyError\<close> unless
  \<open>key\<close> is the default section or a section of the file, and returns that section's
  proxy otherwise. \<^verbatim>\<open>os.environ[name] = value\<close> takes a string and nothing else.
\<close>

type_synonym config = "(string \<times> (string \<times> string) list) list"

datatype pyobj = PyStr string | SectionProxy string

definition config_getitem :: "config \<Rightarrow> string \<Rightarrow> error + pyobj" where
  "config_getitem cfg key =
     (if key \<noteq> ''DEFAULT'' \<and> key \<notin> set (map fst cfg) then Inl (KeyError key)
      else Inr (SectionProxy key))"

definition environ_setitem ::
  "(string \<rightharpoonup> string) \<Rightarrow> string \<Rightarrow> pyobj \<Rightarrow> error + (string \<rightharpoonup> string)" where
  "environ_setitem env name v =
     (case v of
        PyStr s \<Rightarrow> Inr (env(name \<mapsto> s))
      | SectionProxy _ \<Rightarrow> Inl (TypeError ''str expected, not SectionProxy''))"

definition export_credentials ::
  "config \<Rightarrow> (string \<rightharpoonup> string) \<Rightarrow> error + (string \<rightharpoonup> string)" where
  "export_credentials cfg env =
     (case config_getitem cfg ''AWS_ACCESS_KEY_ID'' of
        Inl e \<Rightarrow> Inl e
      | Inr v \<Rightarrow>
          (case environ_setitem env ''AWS_ACCESS_KEY_ID'' v of
             Inl e \<Rightarrow> Inl e
           | Inr env1 \<Rightarrow>
               (case config_getitem cfg ''AWS_SECRET_ACCESS_KEY'' of
                  Inl e \<Rightarrow> Inl e
                | Inr w \<Rightarrow> environ_setitem env1 ''AWS_SECRET_ACCESS_KEY'' w)))"

subsection \<open>Object storage and the session\<close>

text \<open>
  The output storage maps a path to the dataset written there: its partition columns
  and its rows. \<^verbatim>\<open>DataFrameWriter.parquet\<close> takes a save mode; the script always passes
  \<^verbatim>\<open>'overwrite'\<close>.
\<close>

datatype ('f, 't) table =
    SongsTable "'f songs_row list"
  | ArtistsTable "'f artists_row list"
  | UserTable "user_row list"
  | TimeTable "'t time_row list"
  | SongplaysTable "'t songplays_row list"

record ('f, 't) dataset =
  partitionBy :: "string list"
  contents :: "('f, 't) table"

type_synonym ('f, 't) storage = "string \<rightharpoonup> ('f, 't) dataset"

datatype save_mode = Append | Overwrite | ErrorIfExists | Ignore

text \<open>
  \<^verbatim>\<open>spark.read.json\<close> infers the schema from the records it finds: the data frame has
  the columns whose keys occur in the data, and a record holds null in a column it
  lacks. An empty dataset has no column at all.
\<close>

record 'r data_frame =
  columns :: "string list"
  rows :: "'r list"

text \<open>
  The session stands for everything the engine decides: what reading a path gives (a
  data frame, or an exception for a missing path, malformed JSON or refused
  credentials), when a column of a frame answers to a name (the session's resolver,
  which by default ignores case), whether writing to a path fails and what a failed
  write leaves at that path, and the SQL functions.
\<close>

record ('f, 't) spark_session =
  read_song_json :: "string \<Rightarrow> error + 'f song_rec data_frame"
  read_log_json :: "string \<Rightarrow> error + log_rec data_frame"
  resolver :: "string \<Rightarrow> string \<Rightarrow> bool"
  write_error :: "string \<Rightarrow> error option"
  write_residue :: "string \<Rightarrow> ('f, 't) dataset option \<Rightarrow> ('f, 't) dataset option"
  sql :: "'t sql_functions"

text \<open>
  The analyser accepts a name when exactly one column answers to it; with none the
  column cannot be resolved, with several the reference is ambiguous, and either way
  the statement raises \<^verbatim>\<open>AnalysisException\<close> when it is issued, before any row is read.
\<close>

definition resolves :: "('f, 't) spark_session \<Rightarrow> string list \<Rightarrow> string \<Rightarrow> bool" where
  "resolves spark cols name = (length (filter (\<lambda>c. resolver spark c name) cols) = 1)"

fun append_table :: "('f, 't) table \<Rightarrow> ('f, 't) table \<Rightarrow> ('f, 't) table option" where
  "append_table (SongsTable xs) (SongsTable ys) = Some (SongsTable (xs @ ys))"
| "append_table (ArtistsTable xs) (ArtistsTable ys) = Some (ArtistsTable (xs @ ys))"
| "append_table (UserTable xs) (UserTable ys) = Some (UserTable (xs @ ys))"
| "append_table (TimeTable xs) (TimeTable ys) = Some (TimeTable (xs @ ys))"
| "append_table (SongplaysTable xs) (SongplaysTable ys) = Some (SongplaysTable (xs @ ys))"
| "append_table _ _ = None"

text \<open>
  A write that fails raises the engine's exception, and the path it was writing to is
  left as the engine leaves it; every other path is untouched.
\<close>

definition write_parquet ::
  "('f, 't) spark_session \<Rightarrow> ('f, 't) storage \<Rightarrow> string \<Rightarrow> save_mode \<Rightarrow> string list
     \<Rightarrow> ('f, 't) table \<Rightarrow> (error \<times> ('f, 't) storage) + ('f, 't) storage" where
  "write_parquet spark st path mode parts tbl =
     (case write_error spark path of
        Some e \<Rightarrow> Inl (e, st(path := write_residue spark path (st path)))
      | None \<Rightarrow>
          (case mode of
             Overwrite \<Rightarrow> Inr (st(path \<mapsto> \<lparr>partitionBy = parts, contents = tbl\<rparr>))
           | ErrorIfExists \<Rightarrow>
               (case st path of
                  None \<Rightarrow> Inr (st(path \<mapsto> \<lparr>partitionBy = parts, contents = tbl\<rparr>))
                | Some _ \<Rightarrow> Inl (EngineError ''path already exists'', st))
           | Ignore \<Rightarrow>
               (case st path of
                  None \<Rightarrow> Inr (st(path \<mapsto> \<lparr>partitionBy = parts, contents = tbl\<rparr>))
                | Some _ \<Rightarrow> Inr st)
           | Append \<Rightarrow>
               (case st path of
                  None \<Rightarrow> Inr (st(path \<mapsto> \<lparr>partitionBy = parts, contents = tbl\<rparr>))
                | Some old \<Rightarrow>
                    (case append_table (contents old) tbl of
                       None \<Rightarrow> Inl (EngineError ''schema mismatch'', st)
                     | Some t \<Rightarrow> Inr (st(path \<mapsto> \<lparr>partitionBy = parts, contents = t\<rparr>))))))"

text \<open>
  A routine either returns (Python's \<^verbatim>\<open>None\<close>) or raises; both leave a storage
  behind. There is no \<^verbatim>\<open>try\<close> in the script.
\<close>

datatype 's result = Returned 's | Raised error 's

fun storage_of :: "'s result \<Rightarrow> 's" where
  "storage_of (Returned st) = st"
| "storage_of (Raised e st) = st"

subsection \<open>process_song_data (lines 24 to 59)\<close>

text \<open>
  Line 41 lacks its closing parenthesis; the routine is read with it restored,
  \<^verbatim>\<open>df = spark.read.json(song_data)\<close>. Each \<^verbatim>\<open>select\<close> is analysed when it is called,
  each write runs the query.
\<close>

definition songs_columns :: "string list" where
  "songs_columns = [''song_id'', ''title'', ''artist_id'', ''year'', ''duration'']"

definition artists_columns :: "string list" where
  "artists_columns =
     [''artist_id'', ''artist_name'', ''artist_location'', ''artist_latitude'',
      ''artist_longitude'']"

definition process_song_data ::
  "('f, 't) spark_session \<Rightarrow> string \<Rightarrow> string \<Rightarrow> ('f, 't) storage \<Rightarrow> ('f, 't) storage result" where
  "process_song_data spark input_data output_data st =
     (case read_song_json spark (input_data @ ''/song_data/*/*/*/*.json'') of
        Inl e \<Rightarrow> Raised e st
      | Inr df \<Rightarrow>
          if \<not> list_all (resolves spark (columns df)) songs_columns
          then Raised AnalysisException st
          else
            (case write_parquet spark st (output_data @ ''/songs_table'') Overwrite
                    [''year'', ''artist_id''] (SongsTable (songs_table (rows df))) of
               Inl (e, st1) \<Rightarrow> Raised e st1
             | Inr st1 \<Rightarrow>
                 if \<not> list_all (resolves spark (columns df)) artists_columns
                 then Raised AnalysisException st1
                 else
                   (case write_parquet spark st1 (output_data @ ''/artists_table'') Overwrite
                           [] (ArtistsTable (artists_table (rows df))) of
                      Inl (e, st2) \<Rightarrow> Raised e st2
                    | Inr st2 \<Rightarrow> Returned st2)))"

subsection \<open>process_log_data (lines 62 to 134)\<close>

text \<open>
  The statement at lines 105 to 107, \<^verbatim>\<open>time_table.parquet(...)\<close>, lacks the \<^verbatim>\<open>.write\<close> of
  its four siblings, the comma after the mode and the closing bracket of the column
  list. What it does is not decided here: it is the parameter
  \<open>time_table_statement\<close> of the routine, given the time table and the output path,
  and it returns or raises like any statement.

  \<^verbatim>\<open>df['page']\<close> and the \<^verbatim>\<open>select\<close> are analysed where they stand, and so is each query
  when \<^verbatim>\<open>spark.sql\<close> is called, under the analyser's default settings. The time query names \<^verbatim>\<open>ts\<close>; its \<^verbatim>\<open>GROUP BY start_time\<close>
  means the alias only while the view has no column of that name (with one, the
  grouping is on that column and the selected expression is rejected). The songplays
  query names six columns of the logs and three of the songs by their table, and
  \<^verbatim>\<open>userId\<close> by no table, so that name must find one column among those of both views.
\<close>

definition user_columns :: "string list" where
  "user_columns = [''userId'', ''firstName'', ''lastName'', ''gender'', ''level'']"

definition time_query_analyses :: "('f, 't) spark_session \<Rightarrow> string list \<Rightarrow> bool" where
  "time_query_analyses spark cols =
     (resolves spark cols ''ts''
      \<and> filter (\<lambda>c. resolver spark c ''start_time'') cols = [])"

definition songplays_query_analyses ::
  "('f, 't) spark_session \<Rightarrow> string list \<Rightarrow> string list \<Rightarrow> bool" where
  "songplays_query_analyses spark log_cols song_cols =
     (list_all (resolves spark log_cols)
        [''ts'', ''level'', ''sessionId'', ''location'', ''userAgent'', ''song'']
      \<and> list_all (resolves spark song_cols) [''song_id'', ''artist_id'', ''title'']
      \<and> resolves spark (log_cols @ song_cols) ''userId'')"

definition process_log_data ::
  "('f, 't) spark_session
     \<Rightarrow> ('t time_row list \<Rightarrow> string \<Rightarrow> ('f, 't) storage \<Rightarrow> ('f, 't) storage result)
     \<Rightarrow> string \<Rightarrow> string \<Rightarrow> ('f, 't) storage \<Rightarrow> ('f, 't) storage result" where
  "process_log_data spark time_table_statement input_data output_data st =
     (case read_log_json spark (input_data @ ''/log_data/*/*/*.json'') of
        Inl e \<Rightarrow> Raised e st
      | Inr df \<Rightarrow>
          if \<not> resolves spark (columns df) ''page'' then Raised AnalysisException st
          else if \<not> list_all (resolves spark (columns df)) user_columns
          then Raised AnalysisException st
          else
            (case write_parquet spark st (output_data @ ''/user_table'') Overwrite
                    [] (UserTable (user_table (rows df))) of
               Inl (e, st1) \<Rightarrow> Raised e st1
             | Inr st1 \<Rightarrow>
                 if \<not> time_query_analyses spark (columns df)
                 then Raised AnalysisException st1
                 else
                   (case time_table_statement (time_table (sql spark) (rows df))
                           output_data st1 of
                      Raised e st2 \<Rightarrow> Raised e st2
                    | Returned st2 \<Rightarrow>
                        (case read_song_json spark
                                (input_data @ ''/song_data/*/*/*/*.json'') of
                           Inl e \<Rightarrow> Raised e st2
                         | Inr song_df \<Rightarrow>
                             if \<not> songplays_query_analyses spark (columns df)
                                    (columns song_df)
                             then Raised AnalysisException st2
                             else
                               (case write_parquet spark st2
                                       (output_data @ ''/songplays_table'') Overwrite
                                       [''year'', ''month'']
                                       (SongplaysTable
                                          (songplays_table (sql spark) (rows df)
                                             (rows song_df))) of
                                  Inl (e, st3) \<Rightarrow> Raised e st3
                                | Inr st3 \<Rightarrow> Returned st3)))))"

subsection \<open>main (lines 137 to 143) and the module\<close>

text \<open>
  \<^verbatim>\<open>create_spark_session()\<close> asks the engine for a session, which the engine gives or
  refuses with an exception: its outcome is the first argument of \<open>main\<close>.
\<close>

definition input_data :: string where
  "input_data = ''s3a://udacity-dend/''"

definition output_data :: string where
  "output_data = ''s3a://sparkify-udacity-ahmed''"

definition main ::
  "error + ('f, 't) spark_session
     \<Rightarrow> ('t time_row list \<Rightarrow> string \<Rightarrow> ('f, 't) storage \<Rightarrow> ('f, 't) storage result)
     \<Rightarrow> ('f, 't) storage \<Rightarrow> ('f, 't) storage result" where
  "main create_spark_session time_table_statement st =
     (case create_spark_session of
        Inl e \<Rightarrow> Raised e st
      | Inr spark \<Rightarrow>
          (case process_song_data spark input_data output_data st of
             Raised e st1 \<Rightarrow> Raised e st1
           | Returned st1 \<Rightarrow>
               process_log_data spark time_table_statement input_data output_data st1))"

text \<open>
  Run as a program, the module executes lines 9 to 13 and then, at lines 146 and 147,
  \<open>main\<close>.
\<close>

definition etl ::
  "config \<Rightarrow> (string \<rightharpoonup> string) \<Rightarrow> error + ('f, 't) spark_session
     \<Rightarrow> ('t time_row list \<Rightarrow> string \<Rightarrow> ('f, 't) storage \<Rightarrow> ('f, 't) storage result)
     \<Rightarrow> ('f, 't) storage \<Rightarrow> ('f, 't) storage result" where
  "etl cfg env create_spark_session time_table_statement st =
     (case export_credentials cfg env of
        Inl e \<Rightarrow> Raised e st
      | Inr env' \<Rightarrow> main create_spark_session time_table_statement st)"

section \<open>A session in UTC\<close>

text \<open>
  One instance of the engine's functions, for running the model: the rendered
  timestamp is the number of seconds since the epoch, read in UTC on the proleptic
  Gregorian calendar. \<^verbatim>\<open>weekofyear\<close> is the ISO 8601 week, \<^verbatim>\<open>dayofweek\<close> counts from
  Sunday as 1.
\<close>

definition civil_from_days :: "int \<Rightarrow> int \<times> int \<times> int" where
  "civil_from_days z =
     (let z' = z + 719468;
          era = z' div 146097;
          doe = z' - era * 146097;
          yoe = (doe - doe div 1460 + doe div 36524 - doe div 146096) div 365;
          doy = doe - (365 * yoe + yoe div 4 - yoe div 100);
          mp = (5 * doy + 2) div 153;
          d = doy - (153 * mp + 2) div 5 + 1;
          m = (if mp < 10 then mp + 3 else mp - 9);
          y = yoe + era * 400
      in (if m \<le> 2 then y + 1 else y, m, d))"

definition days_from_civil :: "int \<Rightarrow> int \<Rightarrow> int \<Rightarrow> int" where
  "days_from_civil y m d =
     (let y' = (if m \<le> 2 then y - 1 else y);
          era = y' div 400;
          yoe = y' - era * 400;
          doy = (153 * (if 2 < m then m - 3 else m + 9) + 2) div 5 + d - 1;
          doe = yoe * 365 + yoe div 4 - yoe div 100 + doy
      in era * 146097 + doe - 719468)"

definition utc_year :: "int \<Rightarrow> int" where
  "utc_year s = fst (civil_from_days (s div 86400))"

definition utc_month :: "int \<Rightarrow> int" where
  "utc_month s = fst (snd (civil_from_days (s div 86400)))"

definition utc_day :: "int \<Rightarrow> int" where
  "utc_day s = snd (snd (civil_from_days (s div 86400)))"

definition utc_hour :: "int \<Rightarrow> int" where
  "utc_hour s = (s mod 86400) div 3600"

definition utc_dayofweek :: "int \<Rightarrow> int" where
  "utc_dayofweek s = (s div 86400 + 4) mod 7 + 1"

definition utc_weekofyear :: "int \<Rightarrow> int" where
  "utc_weekofyear s =
     (let days = s div 86400;
          thursday = days - (days + 3) mod 7 + 3;
          y = fst (civil_from_days thursday)
      in (thursday - days_from_civil y 1 1) div 7 + 1)"

definition utc :: "int sql_functions" where
  "utc = \<lparr>from_unixtime = (\<lambda>s. s), hour = utc_hour, day = utc_day,
          weekofyear = utc_weekofyear, month = utc_month, year = utc_year,
          dayofweek = utc_dayofweek\<rparr>"

section \<open>Sample data\<close>

text \<open>
  One song record and three log events, for running the definitions: a play of the
  song, a page view that is no play, and a play of a song the metadata does not have.
  Doubles are written as their JSON literals.
\<close>

definition sample_song :: "string song_rec" where
  "sample_song =
     \<lparr>song_id = Some ''SOUPIRU12A6D4FA1E1'', title = Some ''Der Kleine Dompfaff'',
      artist_id = Some ''ARJIE2Y1187B994AB7'', song_year = Some 0,
      duration = Some ''152.92036'', artist_name = Some ''Line Renaud'',
      artist_location = None, artist_latitude = None, artist_longitude = None\<rparr>"

definition play_event :: log_rec where
  "play_event =
     \<lparr>userId = Some ''8'', firstName = Some ''Kaylee'', lastName = Some ''Summers'',
      gender = Some ''F'', level = Some ''free'', page = Some ''NextSong'',
      ts = Some 1541106106796, song = Some ''Der Kleine Dompfaff'',
      sessionId = Some 139, location = Some ''Phoenix'', userAgent = Some ''Mozilla''\<rparr>"

definition home_event :: log_rec where
  "home_event =
     \<lparr>userId = Some ''8'', firstName = Some ''Kaylee'', lastName = Some ''Summers'',
      gender = Some ''F'', level = Some ''free'', page = Some ''Home'',
      ts = Some 1541106132796, song = None,
      sessionId = Some 139, location = Some ''Phoenix'', userAgent = Some ''Mozilla''\<rparr>"

definition unmatched_event :: log_rec where
  "unmatched_event =
     \<lparr>userId = Some ''8'', firstName = Some ''Kaylee'', lastName = Some ''Summers'',
      gender = Some ''F'', level = Some ''free'', page = Some ''NextSong'',
      ts = Some 1541106352796, song = Some ''Flat 55'',
      sessionId = Some 139, location = Some ''Phoenix'', userAgent = Some ''Mozilla''\<rparr>"

definition sample_logs :: "log_rec list" where
  "sample_logs = [play_event, home_event, unmatched_event]"

text \<open>
  The frames of the two datasets carry the columns of the real ones. A session over
  them: the two input trees hold the sample frames, any other path does not exist,
  names are resolved as they are spelled, no write fails, and the clock is UTC. A
  second session refuses the write of the artists table and leaves nothing at its
  path; a third finds the song tree empty. The configuration is a \<^verbatim>\<open>dl.cfg\<close> with one
  section \<^verbatim>\<open>[AWS]\<close> holding the two keys (the parser lower-cases option names).
\<close>

definition sample_song_df :: "string song_rec data_frame" where
  "sample_song_df =
     \<lparr>columns = [''artist_id'', ''artist_latitude'', ''artist_location'',
                 ''artist_longitude'', ''artist_name'', ''duration'', ''num_songs'',
                 ''song_id'', ''title'', ''year''],
      rows = [sample_song]\<rparr>"

definition sample_log_df :: "log_rec data_frame" where
  "sample_log_df =
     \<lparr>columns = [''artist'', ''auth'', ''firstName'', ''gender'', ''itemInSession'',
                 ''lastName'', ''length'', ''level'', ''location'', ''method'', ''page'',
                 ''registration'', ''sessionId'', ''song'', ''status'', ''ts'',
                 ''userAgent'', ''userId''],
      rows = sample_logs\<rparr>"

definition sample_session :: "(string, int) spark_session" where
  "sample_session =
     \<lparr>read_song_json =
        (\<lambda>p. if p = ''s3a://udacity-dend//song_data/*/*/*/*.json'' then Inr sample_song_df
             else Inl (EngineError ''Path does not exist'')),
      read_log_json =
        (\<lambda>p. if p = ''s3a://udacity-dend//log_data/*/*/*.json'' then Inr sample_log_df
             else Inl (EngineError ''Path does not exist'')),
      resolver = (\<lambda>c name. c = name),
      write_error = (\<lambda>p. None),
      write_residue = (\<lambda>p d. None),
      sql = utc\<rparr>"

definition failing_session :: "(string, int) spark_session" where
  "failing_session =
     sample_session
       \<lparr>write_error :=
          (\<lambda>p. if p = ''s3a://sparkify-udacity-ahmed/artists_table''
               then Some (EngineError ''Access Denied'') else None)\<rparr>"

definition empty_session :: "(string, int) spark_session" where
  "empty_session =
     sample_session \<lparr>read_song_json := (\<lambda>p. Inr \<lparr>columns = [], rows = []\<rparr>)\<rparr>"

text \<open>
  For running the model, one meaning of the statement at lines 105 to 107: the write
  its four siblings spell out.
\<close>

definition sibling_write ::
  "('f, 't) spark_session \<Rightarrow> 't time_row list \<Rightarrow> string \<Rightarrow> ('f, 't) storage
     \<Rightarrow> ('f, 't) storage result" where
  "sibling_write spark tbl out st =
     (case write_parquet spark st (out @ ''/time_table'') Overwrite
             [''year'', ''month''] (TimeTable tbl) of
        Inl (e, st') \<Rightarrow> Raised e st'
      | Inr st' \<Rightarrow> Returned st')"

definition sample_config :: config where
  "sample_config =
     [(''AWS'', [(''aws_access_key_id'', ''AKIAEXAMPLE''),
                 (''aws_secret_access_key'', ''secret'')])]"

section \<open>Row counts\<close>

lemma length_songs_table: "length (songs_table df) \<le> length df"
  unfolding songs_table_def using length_remdups_leq [of "map select_songs df"] by simp

lemma length_artists_table: "length (artists_table df) \<le> length df"
  unfolding artists_table_def using length_remdups_leq [of "map select_artists df"] by simp

lemma length_user_table: "length (user_table df) \<le> length df"
proof -
  have "length (user_table df) \<le> length (filter_logs df)"
    unfolding user_table_def
    using length_remdups_leq [of "map select_user (filter_logs df)"] by simp
  also have "\<dots> \<le> length df"
    unfolding filter_logs_def by (rule length_filter_le)
  finally show ?thesis .
qed

text \<open>
  C6. The songs and the artists table have at most as many rows as the song dataset
  they are projected from, and the users table at most as many as the log dataset.
\<close>

theorem dedup_row_count_le:
  "length (songs_table (sdf :: 'f song_rec list)) \<le> length sdf
   \<and> length (artists_table sdf) \<le> length sdf
   \<and> length (user_table ldf) \<le> length ldf"
  using length_songs_table [of sdf] length_artists_table [of sdf] length_user_table [of ldf]
  by simp

section \<open>The join and the songplays rows\<close>

lemma set_join_rows:
  "set (join_rows l songs) =
     (if \<forall>s \<in> set songs. \<not> join_on l s then {(l, None)}
      else (\<lambda>s. (l, Some s)) ` {s \<in> set songs. join_on l s})"
proof (cases "filter (join_on l) songs")
  case Nil
  then show ?thesis
    by (simp add: join_rows_def filter_empty_conv)
next
  case (Cons a as)
  have "set (join_rows l songs) = (\<lambda>s. (l, Some s)) ` set (filter (join_on l) songs)"
    using Cons by (simp add: join_rows_def)
  moreover have "\<not> (\<forall>s \<in> set songs. \<not> join_on l s)"
    using Cons by (simp add: filter_empty_conv [symmetric])
  ultimately show ?thesis by auto
qed

lemma in_left_join:
  "(l, so) \<in> set (left_join logs songs) \<longleftrightarrow>
     l \<in> set logs \<and>
     (case so of None \<Rightarrow> (\<forall>s \<in> set songs. \<not> join_on l s)
               | Some s \<Rightarrow> s \<in> set songs \<and> join_on l s)"
  unfolding left_join_def
  by (auto simp: set_join_rows split: option.splits if_splits)

lemma songplays_table_nth:
  "songplays_table fns df sdf =
     map (\<lambda>i. select_songplay fns i (left_join (filter_logs df) sdf ! i))
       [0..<length (left_join (filter_logs df) sdf)]"
  unfolding songplays_table_def Let_def
  by (rule nth_equalityI) simp_all

lemma in_songplays_table:
  "r \<in> set (songplays_table fns df sdf) \<longleftrightarrow>
     (\<exists>i < length (left_join (filter_logs df) sdf).
        r = select_songplay fns i (left_join (filter_logs df) sdf ! i))"
  unfolding songplays_table_nth by auto




lemma time_start_time_time_of: "time_start_time (time_of fns st) = st"
  by (simp add: time_of_def)

lemma map_time_start_time:
  "map time_start_time (time_table fns df) = remdups (map (start_time_of fns) (filter_logs df))"
  unfolding time_table_def by (simp add: time_start_time_time_of o_def)


section \<open>The tables as projections of the inputs\<close>









lemma filter_logs_drop:
  "page l \<noteq> Some ''NextSong'' \<Longrightarrow> filter_logs (xs @ l # ys) = filter_logs (xs @ ys)"
  by (simp add: filter_logs_def next_song_def)

text \<open>
  C8. A log event whose page is not NextSong contributes to none of the users, time
  and songplays tables: with or without it, the three tables are the same.
\<close>

theorem only_next_song_contributes:
  assumes "page l \<noteq> Some ''NextSong''"
  shows "user_table (xs @ l # ys) = user_table (xs @ ys)
         \<and> time_table fns (xs @ l # ys) = time_table fns (xs @ ys)
         \<and> songplays_table fns (xs @ l # ys) sdf = songplays_table fns (xs @ ys) sdf"
  using filter_logs_drop [OF assms, of xs ys]
  by (simp add: user_table_def time_table_def songplays_table_def)

text \<open>
  C10. In the time table start_time is a key: the start_time column has no repeated
  value, its values are exactly the start times of the retained events, and every
  row's hour, day, week, month, year and weekday are derived from its start_time.
\<close>

theorem time_table_start_time_key:
  "distinct (map time_start_time (time_table fns df))
   \<and> set (map time_start_time (time_table fns df)) = start_time_of fns ` set (filter_logs df)
   \<and> (\<forall>r \<in> set (time_table fns df).
        time_hour r = map_option (hour fns) (time_start_time r)
        \<and> time_day r = map_option (day fns) (time_start_time r)
        \<and> time_week r = map_option (weekofyear fns) (time_start_time r)
        \<and> time_month r = map_option (month fns) (time_start_time r)
        \<and> time_year r = map_option (year fns) (time_start_time r)
        \<and> time_weekday r = map_option (dayofweek fns) (time_start_time r))"
proof (intro conjI ballI)
  show "distinct (map time_start_time (time_table fns df))"
    by (simp only: map_time_start_time distinct_remdups)
  show "set (map time_start_time (time_table fns df)) = start_time_of fns ` set (filter_logs df)"
    by (simp only: map_time_start_time set_remdups set_map)
next
  fix r assume "r \<in> set (time_table fns df)"
  then obtain st where r: "r = time_of fns st"
    unfolding time_table_def by auto
  show "time_hour r = map_option (hour fns) (time_start_time r)"
    and "time_day r = map_option (day fns) (time_start_time r)"
    and "time_week r = map_option (weekofyear fns) (time_start_time r)"
    and "time_month r = map_option (month fns) (time_start_time r)"
    and "time_year r = map_option (year fns) (time_start_time r)"
    and "time_weekday r = map_option (dayofweek fns) (time_start_time r)"
    unfolding r by (simp_all add: time_of_def)
qed

lemma songplays_row_origin:
  assumes "r \<in> set (songplays_table fns df sdf)"
  obtains i l so where "(l, so) \<in> set (left_join (filter_logs df) sdf)"
    and "r = select_songplay fns i (l, so)"
proof -
  from assms obtain i where i: "i < length (left_join (filter_logs df) sdf)"
    and r: "r = select_songplay fns i (left_join (filter_logs df) sdf ! i)"
    unfolding in_songplays_table by blast
  obtain l so where p: "left_join (filter_logs df) sdf ! i = (l, so)"
    by (cases "left_join (filter_logs df) sdf ! i")
  have "(l, so) \<in> set (left_join (filter_logs df) sdf)"
    using i p nth_mem [of i "left_join (filter_logs df) sdf"] by simp
  then show ?thesis using that r p by simp
qed

lemma songplays_row_exists:
  assumes "(l, so) \<in> set (left_join (filter_logs df) sdf)"
  shows "\<exists>i. select_songplay fns i (l, so) \<in> set (songplays_table fns df sdf)"
proof -
  from assms obtain i where "i < length (left_join (filter_logs df) sdf)"
    and "left_join (filter_logs df) sdf ! i = (l, so)"
    by (auto simp: in_set_conv_nth)
  then have "select_songplay fns i (l, so) \<in> set (songplays_table fns df sdf)"
    unfolding in_songplays_table by force
  then show ?thesis ..
qed

lemma in_filter_logs: "l \<in> set (filter_logs df) \<longleftrightarrow> l \<in> set df \<and> page l = Some ''NextSong''"
  by (simp add: filter_logs_def next_song_def)

text \<open>
  C4. Every row of the songplays table has the year and the month of its own
  start_time, and that start_time is the \<^verbatim>\<open>ts\<close> of a retained log event, converted from
  milliseconds.
\<close>

theorem songplay_year_month:
  "\<forall>r \<in> set (songplays_table fns df sdf).
     sp_year r = map_option (year fns) (sp_start_time r)
     \<and> sp_month r = map_option (month fns) (sp_start_time r)
     \<and> (\<exists>l \<in> set df. page l = Some ''NextSong''
           \<and> sp_start_time r = map_option (\<lambda>t. from_unixtime fns (ts_div_1000 t)) (ts l))"
proof
  fix r assume "r \<in> set (songplays_table fns df sdf)"
  then obtain i l so where j: "(l, so) \<in> set (left_join (filter_logs df) sdf)"
    and r: "r = select_songplay fns i (l, so)"
    by (rule songplays_row_origin)
  from j have l: "l \<in> set df \<and> page l = Some ''NextSong''"
    by (simp add: in_left_join in_filter_logs)
  have "sp_start_time r = map_option (\<lambda>t. from_unixtime fns (ts_div_1000 t)) (ts l)"
    unfolding r by (simp add: select_songplay_def start_time_of_def)
  with l have "\<exists>l \<in> set df. page l = Some ''NextSong''
      \<and> sp_start_time r = map_option (\<lambda>t. from_unixtime fns (ts_div_1000 t)) (ts l)"
    by blast
  moreover have "sp_year r = map_option (year fns) (sp_start_time r)"
    and "sp_month r = map_option (month fns) (sp_start_time r)"
    unfolding r by (simp_all add: select_songplay_def)
  ultimately show "sp_year r = map_option (year fns) (sp_start_time r)
     \<and> sp_month r = map_option (month fns) (sp_start_time r)
     \<and> (\<exists>l \<in> set df. page l = Some ''NextSong''
           \<and> sp_start_time r = map_option (\<lambda>t. from_unixtime fns (ts_div_1000 t)) (ts l))"
    by simp
qed

text \<open>
  C9. Every log event whose page is NextSong has a row in the songplays table. When no
  song record has a title equal to the event's song, the join pairs the event with
  nulls only, and the table has a row for it whose song_id and artist_id are null.
\<close>

theorem unmatched_event_has_songplay:
  assumes "l \<in> set df" and "page l = Some ''NextSong''"
  shows "(\<exists>r \<in> set (songplays_table fns df (sdf :: 'f song_rec list)).
            sp_start_time r = start_time_of fns l \<and> sp_user_id r = userId l
            \<and> sp_level r = level l \<and> sp_session_id r = sessionId l
            \<and> sp_location r = location l \<and> sp_user_agent r = userAgent l)
         \<and> ((\<forall>s \<in> set sdf. \<not> (song l \<noteq> None \<and> song l = title s)) \<longrightarrow>
              (\<exists>r \<in> set (songplays_table fns df sdf).
                 sp_start_time r = start_time_of fns l \<and> sp_user_id r = userId l
                 \<and> sp_level r = level l \<and> sp_session_id r = sessionId l
                 \<and> sp_location r = location l \<and> sp_user_agent r = userAgent l
                 \<and> sp_song_id r = None \<and> sp_artist_id r = None)
              \<and> (\<forall>so. (l, so) \<in> set (left_join (filter_logs df) sdf) \<longrightarrow> so = None))"
proof (intro conjI impI)
  from assms have l: "l \<in> set (filter_logs df)" by (simp add: in_filter_logs)
  have "\<exists>so. (l, so) \<in> set (left_join (filter_logs df) sdf)"
  proof (cases "\<forall>s \<in> set sdf. \<not> join_on l s")
    case True
    with l have "(l, None) \<in> set (left_join (filter_logs df) sdf)"
      by (simp add: in_left_join)
    then show ?thesis ..
  next
    case False
    then obtain s where "s \<in> set sdf" "join_on l s" by blast
    with l have "(l, Some s) \<in> set (left_join (filter_logs df) sdf)"
      by (simp add: in_left_join)
    then show ?thesis ..
  qed
  then obtain so where "(l, so) \<in> set (left_join (filter_logs df) sdf)" ..
  from songplays_row_exists [OF this, of fns]
  obtain i where "select_songplay fns i (l, so) \<in> set (songplays_table fns df sdf)" ..
  then show "\<exists>r \<in> set (songplays_table fns df sdf).
            sp_start_time r = start_time_of fns l \<and> sp_user_id r = userId l
            \<and> sp_level r = level l \<and> sp_session_id r = sessionId l
            \<and> sp_location r = location l \<and> sp_user_agent r = userAgent l"
    by (rule rev_bexI) (simp add: select_songplay_def)
next
  assume "\<forall>s \<in> set sdf. \<not> (song l \<noteq> None \<and> song l = title s)"
  then have none: "\<forall>s \<in> set sdf. \<not> join_on l s" by (simp add: join_on_def)
  from assms have l: "l \<in> set (filter_logs df)" by (simp add: in_filter_logs)
  with none have "(l, None) \<in> set (left_join (filter_logs df) sdf)"
    by (simp add: in_left_join)
  from songplays_row_exists [OF this, of fns]
  obtain i where "select_songplay fns i (l, None :: 'f song_rec option)
      \<in> set (songplays_table fns df sdf)" ..
  then show "\<exists>r \<in> set (songplays_table fns df sdf).
                 sp_start_time r = start_time_of fns l \<and> sp_user_id r = userId l
                 \<and> sp_level r = level l \<and> sp_session_id r = sessionId l
                 \<and> sp_location r = location l \<and> sp_user_agent r = userAgent l
                 \<and> sp_song_id r = None \<and> sp_artist_id r = None"
    by (rule rev_bexI) (simp add: select_songplay_def)
  show "\<forall>so. (l, so) \<in> set (left_join (filter_logs df) sdf) \<longrightarrow> so = None"
    using none by (auto simp: in_left_join split: option.splits)
qed

text \<open>
  C2, as amended. Every row of the songplays table is built from a retained log event:
  either some song record's title equals the event's song and the row carries that
  record's song_id and artist_id, or no song record matches and both are null.
\<close>

theorem songplay_row_from_event:
  "\<forall>r \<in> set (songplays_table fns df sdf).
     \<exists>l \<in> set df. page l = Some ''NextSong''
       \<and> sp_start_time r = start_time_of fns l \<and> sp_user_id r = userId l
       \<and> sp_level r = level l \<and> sp_session_id r = sessionId l
       \<and> sp_location r = location l \<and> sp_user_agent r = userAgent l
       \<and> ((\<exists>s \<in> set sdf. join_on l s \<and> sp_song_id r = song_id s \<and> sp_artist_id r = artist_id s)
          \<or> ((\<forall>s \<in> set sdf. \<not> join_on l s) \<and> sp_song_id r = None \<and> sp_artist_id r = None))"
proof
  fix r assume "r \<in> set (songplays_table fns df sdf)"
  then obtain i l so where j: "(l, so) \<in> set (left_join (filter_logs df) sdf)"
    and r: "r = select_songplay fns i (l, so)"
    by (rule songplays_row_origin)
  from j have l: "l \<in> set df" "page l = Some ''NextSong''"
    by (simp_all add: in_left_join in_filter_logs)
  have fields: "sp_start_time r = start_time_of fns l \<and> sp_user_id r = userId l
       \<and> sp_level r = level l \<and> sp_session_id r = sessionId l
       \<and> sp_location r = location l \<and> sp_user_agent r = userAgent l"
    unfolding r by (simp add: select_songplay_def)
  have "(\<exists>s \<in> set sdf. join_on l s \<and> sp_song_id r = song_id s \<and> sp_artist_id r = artist_id s)
          \<or> ((\<forall>s \<in> set sdf. \<not> join_on l s) \<and> sp_song_id r = None \<and> sp_artist_id r = None)"
  proof (cases so)
    case None
    with j have "\<forall>s \<in> set sdf. \<not> join_on l s" by (simp add: in_left_join)
    then show ?thesis unfolding r None by (simp add: select_songplay_def)
  next
    case (Some s)
    with j have "s \<in> set sdf" "join_on l s" by (simp_all add: in_left_join)
    then show ?thesis unfolding r Some by (auto simp: select_songplay_def)
  qed
  with l fields show "\<exists>l \<in> set df. page l = Some ''NextSong''
       \<and> sp_start_time r = start_time_of fns l \<and> sp_user_id r = userId l
       \<and> sp_level r = level l \<and> sp_session_id r = sessionId l
       \<and> sp_location r = location l \<and> sp_user_agent r = userAgent l
       \<and> ((\<exists>s \<in> set sdf. join_on l s \<and> sp_song_id r = song_id s \<and> sp_artist_id r = artist_id s)
          \<or> ((\<forall>s \<in> set sdf. \<not> join_on l s) \<and> sp_song_id r = None \<and> sp_artist_id r = None))"
    by blast
qed

section \<open>The sample tables\<close>

lemma sample_songplays_table:
  "songplays_table utc sample_logs [sample_song] =
     [\<lparr>songplay_id = 0, sp_start_time = Some 1541106106,
       sp_user_id = Some ''8'', sp_level = Some ''free'',
       sp_song_id = Some ''SOUPIRU12A6D4FA1E1'',
       sp_artist_id = Some ''ARJIE2Y1187B994AB7'', sp_session_id = Some 139,
       sp_location = Some ''Phoenix'', sp_user_agent = Some ''Mozilla'',
       sp_year = Some 2018, sp_month = Some 11\<rparr>,
      \<lparr>songplay_id = 1, sp_start_time = Some 1541106352,
       sp_user_id = Some ''8'', sp_level = Some ''free'', sp_song_id = None,
       sp_artist_id = None, sp_session_id = Some 139,
       sp_location = Some ''Phoenix'', sp_user_agent = Some ''Mozilla'',
       sp_year = Some 2018, sp_month = Some 11\<rparr>]"
  by code_simp

lemma sample_time_table:
  "time_table utc sample_logs =
     [\<lparr>time_start_time = Some 1541106106, time_hour = Some 21,
       time_day = Some 1, time_week = Some 44, time_month = Some 11,
       time_year = Some 2018, time_weekday = Some 5\<rparr>,
      \<lparr>time_start_time = Some 1541106352, time_hour = Some 21,
       time_day = Some 1, time_week = Some 44, time_month = Some 11,
       time_year = Some 2018, time_weekday = Some 5\<rparr>]"
  by code_simp



theorem only_next_song_contributes_witness:
  "page home_event \<noteq> Some ''NextSong''
   \<and> user_table ([play_event] @ home_event # [unmatched_event])
       = user_table ([play_event] @ [unmatched_event])
   \<and> time_table utc ([play_event] @ home_event # [unmatched_event])
       = time_table utc ([play_event] @ [unmatched_event])
   \<and> songplays_table utc ([play_event] @ home_event # [unmatched_event]) [sample_song]
       = songplays_table utc ([play_event] @ [unmatched_event]) [sample_song]"
proof -
  have h: "page home_event \<noteq> Some ''NextSong''"
    by (simp add: home_event_def)
  show ?thesis
    by (rule conjI [OF h only_next_song_contributes [OF h]])
qed

theorem time_table_start_time_key_witness:
  "hd (time_table utc sample_logs) \<in> set (time_table utc sample_logs)
   \<and> time_start_time (hd (time_table utc sample_logs)) = Some 1541106106
   \<and> time_hour (hd (time_table utc sample_logs))
       = map_option (hour utc) (time_start_time (hd (time_table utc sample_logs)))
   \<and> time_year (hd (time_table utc sample_logs))
       = map_option (year utc) (time_start_time (hd (time_table utc sample_logs)))
   \<and> distinct (map time_start_time (time_table utc sample_logs))"
proof -
  have m: "hd (time_table utc sample_logs) \<in> set (time_table utc sample_logs)"
    by (simp add: sample_time_table)
  have v: "time_start_time (hd (time_table utc sample_logs)) = Some 1541106106"
    by (simp add: sample_time_table)
  from time_table_start_time_key [of utc sample_logs] m v show ?thesis
    by blast
qed

theorem songplay_year_month_witness:
  "hd (songplays_table utc sample_logs [sample_song])
     \<in> set (songplays_table utc sample_logs [sample_song])
   \<and> sp_start_time (hd (songplays_table utc sample_logs [sample_song])) = Some 1541106106
   \<and> sp_year (hd (songplays_table utc sample_logs [sample_song]))
       = map_option (year utc) (sp_start_time (hd (songplays_table utc sample_logs [sample_song])))
   \<and> sp_month (hd (songplays_table utc sample_logs [sample_song]))
       = map_option (month utc) (sp_start_time (hd (songplays_table utc sample_logs [sample_song])))"
proof -
  have m: "hd (songplays_table utc sample_logs [sample_song])
     \<in> set (songplays_table utc sample_logs [sample_song])"
    by (simp add: sample_songplays_table)
  have v: "sp_start_time (hd (songplays_table utc sample_logs [sample_song])) = Some 1541106106"
    by (simp add: sample_songplays_table)
  from songplay_year_month [of utc sample_logs "[sample_song]"] m v show ?thesis
    by blast
qed

theorem unmatched_event_has_songplay_witness:
  "unmatched_event \<in> set sample_logs
   \<and> page unmatched_event = Some ''NextSong''
   \<and> song unmatched_event \<noteq> title sample_song
   \<and> (\<exists>r \<in> set (songplays_table utc sample_logs [sample_song]).
         sp_start_time r = start_time_of utc unmatched_event
         \<and> sp_user_id r = userId unmatched_event
         \<and> sp_level r = level unmatched_event
         \<and> sp_session_id r = sessionId unmatched_event
         \<and> sp_location r = location unmatched_event
         \<and> sp_user_agent r = userAgent unmatched_event
         \<and> sp_song_id r = None \<and> sp_artist_id r = None)"
proof -
  have a: "unmatched_event \<in> set sample_logs"
    by (simp add: sample_logs_def)
  have b: "page unmatched_event = Some ''NextSong''"
    by (simp add: unmatched_event_def)
  have c: "song unmatched_event \<noteq> title sample_song"
    by (simp add: unmatched_event_def sample_song_def)
  then have d: "\<forall>s \<in> set [sample_song]. \<not> (song unmatched_event \<noteq> None \<and> song unmatched_event = title s)"
    by simp
  from unmatched_event_has_songplay [OF a b, of utc "[sample_song]"] d a b c
  show ?thesis by blast
qed

theorem songplay_row_from_event_witness:
  "hd (songplays_table utc sample_logs [sample_song])
     \<in> set (songplays_table utc sample_logs [sample_song])
   \<and> (\<exists>l \<in> set sample_logs. page l = Some ''NextSong''
        \<and> sp_start_time (hd (songplays_table utc sample_logs [sample_song])) = start_time_of utc l
        \<and> sp_user_id (hd (songplays_table utc sample_logs [sample_song])) = userId l
        \<and> ((\<exists>s \<in> set [sample_song]. join_on l s
               \<and> sp_song_id (hd (songplays_table utc sample_logs [sample_song])) = song_id s
               \<and> sp_artist_id (hd (songplays_table utc sample_logs [sample_song])) = artist_id s)
           \<or> ((\<forall>s \<in> set [sample_song]. \<not> join_on l s)
               \<and> sp_song_id (hd (songplays_table utc sample_logs [sample_song])) = None
               \<and> sp_artist_id (hd (songplays_table utc sample_logs [sample_song])) = None)))"
proof -
  have m: "hd (songplays_table utc sample_logs [sample_song])
     \<in> set (songplays_table utc sample_logs [sample_song])"
    by (simp add: sample_songplays_table)
  from songplay_row_from_event [of utc sample_logs "[sample_song]"] m show ?thesis
    by blast
qed

text \<open>
  C2 as it is written fails on the sample data: the row of the unmatched play has no
  song record with the title of its event.
\<close>

theorem songplay_without_song_counterexample:
  "\<not> (\<forall>r \<in> set (songplays_table utc sample_logs [sample_song]).
        \<exists>l \<in> set sample_logs. \<exists>s \<in> set [sample_song].
          song l = title s \<and> sp_start_time r = start_time_of utc l
          \<and> sp_song_id r = song_id s \<and> sp_artist_id r = artist_id s)"
  by code_simp

section \<open>The credentials\<close>

lemma config_getitem_cases:
  "config_getitem cfg key = Inl (KeyError key) \<or> config_getitem cfg key = Inr (SectionProxy key)"
  by (simp add: config_getitem_def)

lemma export_credentials_never_returns: "\<exists>e. export_credentials cfg env = Inl e"
  using config_getitem_cases [of cfg "''AWS_ACCESS_KEY_ID''"]
  by (auto simp: export_credentials_def environ_setitem_def)

text \<open>
  C3. The script is meant to export the two credentials of \<^verbatim>\<open>dl.cfg\<close>. It looks each
  key up as a section of the file, so on a file whose section \<^verbatim>\<open>[AWS]\<close> holds the two
  keys the first lookup raises \<^verbatim>\<open>KeyError\<close> and nothing is exported; by the lemma above
  no configuration makes the export succeed.
\<close>

theorem export_credentials_sample:
  "export_credentials sample_config Map.empty = Inl (KeyError ''AWS_ACCESS_KEY_ID'')"
  by (simp add: export_credentials_def config_getitem_def sample_config_def)

section \<open>What the routines write\<close>

lemma write_parquet_overwrite:
  "write_error spark path = None \<Longrightarrow>
     write_parquet spark st path Overwrite parts tbl
       = Inr (st(path \<mapsto> \<lparr>partitionBy = parts, contents = tbl\<rparr>))"
  by (simp add: write_parquet_def)

lemma write_parquet_fails:
  "write_error spark path = Some e \<Longrightarrow>
     write_parquet spark st path mode parts tbl
       = Inl (e, st(path := write_residue spark path (st path)))"
  by (simp add: write_parquet_def)

lemma write_parquet_frame:
  assumes "p \<noteq> path"
  shows "write_parquet spark st path mode parts tbl = Inr st' \<Longrightarrow> st' p = st p"
    and "write_parquet spark st path mode parts tbl = Inl (e, st') \<Longrightarrow> st' p = st p"
  using assms
  by (auto simp: write_parquet_def split: option.splits save_mode.splits)

lemma process_song_data_read_fails:
  assumes "read_song_json spark (inp @ ''/song_data/*/*/*/*.json'') = Inl e"
  shows "process_song_data spark inp out st = Raised e st"
  using assms by (simp add: process_song_data_def)

lemma process_song_data_songs_unresolved:
  assumes "read_song_json spark (inp @ ''/song_data/*/*/*/*.json'') = Inr song_df"
    and "\<not> list_all (resolves spark (columns song_df)) songs_columns"
  shows "process_song_data spark inp out st = Raised AnalysisException st"
  using assms by (simp add: process_song_data_def)

lemma process_song_data_songs_write_fails:
  assumes "read_song_json spark (inp @ ''/song_data/*/*/*/*.json'') = Inr song_df"
    and "list_all (resolves spark (columns song_df)) songs_columns"
    and "write_error spark (out @ ''/songs_table'') = Some e"
  shows "process_song_data spark inp out st =
     Raised e (st(out @ ''/songs_table'' :=
       write_residue spark (out @ ''/songs_table'') (st (out @ ''/songs_table''))))"
  using assms by (simp add: process_song_data_def write_parquet_fails)

lemma process_song_data_artists_unresolved:
  assumes "read_song_json spark (inp @ ''/song_data/*/*/*/*.json'') = Inr song_df"
    and "list_all (resolves spark (columns song_df)) songs_columns"
    and "write_error spark (out @ ''/songs_table'') = None"
    and "\<not> list_all (resolves spark (columns song_df)) artists_columns"
  shows "process_song_data spark inp out st =
     Raised AnalysisException
       (st(out @ ''/songs_table'' \<mapsto>
          \<lparr>partitionBy = [''year'', ''artist_id''],
           contents = SongsTable (songs_table (rows song_df))\<rparr>))"
  using assms by (simp add: process_song_data_def write_parquet_overwrite)

lemma process_song_data_artists_write_fails:
  assumes "read_song_json spark (inp @ ''/song_data/*/*/*/*.json'') = Inr song_df"
    and "list_all (resolves spark (columns song_df)) songs_columns"
    and "write_error spark (out @ ''/songs_table'') = None"
    and "list_all (resolves spark (columns song_df)) artists_columns"
    and "write_error spark (out @ ''/artists_table'') = Some e"
  shows "process_song_data spark inp out st =
     Raised e
       ((st(out @ ''/songs_table'' \<mapsto>
          \<lparr>partitionBy = [''year'', ''artist_id''],
           contents = SongsTable (songs_table (rows song_df))\<rparr>))
        (out @ ''/artists_table'' :=
           write_residue spark (out @ ''/artists_table'')
             ((st(out @ ''/songs_table'' \<mapsto>
                \<lparr>partitionBy = [''year'', ''artist_id''],
                 contents = SongsTable (songs_table (rows song_df))\<rparr>))
              (out @ ''/artists_table''))))"
  using assms by (simp add: process_song_data_def write_parquet_overwrite write_parquet_fails)

lemma process_song_data_ok:
  assumes "read_song_json spark (inp @ ''/song_data/*/*/*/*.json'') = Inr song_df"
    and "list_all (resolves spark (columns song_df)) songs_columns"
    and "write_error spark (out @ ''/songs_table'') = None"
    and "list_all (resolves spark (columns song_df)) artists_columns"
    and "write_error spark (out @ ''/artists_table'') = None"
  shows "process_song_data spark inp out st =
     Returned
       (st(out @ ''/songs_table'' \<mapsto>
             \<lparr>partitionBy = [''year'', ''artist_id''],
              contents = SongsTable (songs_table (rows song_df))\<rparr>,
           out @ ''/artists_table'' \<mapsto>
             \<lparr>partitionBy = [], contents = ArtistsTable (artists_table (rows song_df))\<rparr>))"
  using assms by (simp add: process_song_data_def write_parquet_overwrite)

lemma process_log_data_read_fails:
  assumes "read_log_json spark (inp @ ''/log_data/*/*/*.json'') = Inl e"
  shows "process_log_data spark tts inp out st = Raised e st"
  using assms by (simp add: process_log_data_def)

lemma process_log_data_page_unresolved:
  assumes "read_log_json spark (inp @ ''/log_data/*/*/*.json'') = Inr df"
    and "\<not> resolves spark (columns df) ''page''"
  shows "process_log_data spark tts inp out st = Raised AnalysisException st"
  using assms by (simp add: process_log_data_def)

lemma process_log_data_user_unresolved:
  assumes "read_log_json spark (inp @ ''/log_data/*/*/*.json'') = Inr df"
    and "resolves spark (columns df) ''page''"
    and "\<not> list_all (resolves spark (columns df)) user_columns"
  shows "process_log_data spark tts inp out st = Raised AnalysisException st"
  using assms by (simp add: process_log_data_def)

lemma process_log_data_user_write_fails:
  assumes "read_log_json spark (inp @ ''/log_data/*/*/*.json'') = Inr df"
    and "resolves spark (columns df) ''page''"
    and "list_all (resolves spark (columns df)) user_columns"
    and "write_error spark (out @ ''/user_table'') = Some e"
  shows "process_log_data spark tts inp out st =
     Raised e (st(out @ ''/user_table'' :=
       write_residue spark (out @ ''/user_table'') (st (out @ ''/user_table''))))"
  using assms by (simp add: process_log_data_def write_parquet_fails)

lemma process_log_data_time_unresolved:
  assumes "read_log_json spark (inp @ ''/log_data/*/*/*.json'') = Inr df"
    and "resolves spark (columns df) ''page''"
    and "list_all (resolves spark (columns df)) user_columns"
    and "write_error spark (out @ ''/user_table'') = None"
    and "\<not> time_query_analyses spark (columns df)"
  shows "process_log_data spark tts inp out st =
     Raised AnalysisException
       (st(out @ ''/user_table'' \<mapsto>
          \<lparr>partitionBy = [], contents = UserTable (user_table (rows df))\<rparr>))"
  using assms by (simp add: process_log_data_def write_parquet_overwrite)

lemma process_log_data_after_users:
  assumes "read_log_json spark (inp @ ''/log_data/*/*/*.json'') = Inr df"
    and "resolves spark (columns df) ''page''"
    and "list_all (resolves spark (columns df)) user_columns"
    and "write_error spark (out @ ''/user_table'') = None"
    and "time_query_analyses spark (columns df)"
  shows "process_log_data spark tts inp out st =
     (case tts (time_table (sql spark) (rows df)) out
             (st(out @ ''/user_table'' \<mapsto>
                \<lparr>partitionBy = [], contents = UserTable (user_table (rows df))\<rparr>)) of
        Raised e st2 \<Rightarrow> Raised e st2
      | Returned st2 \<Rightarrow>
          (case read_song_json spark (inp @ ''/song_data/*/*/*/*.json'') of
             Inl e \<Rightarrow> Raised e st2
           | Inr song_df \<Rightarrow>
               if \<not> songplays_query_analyses spark (columns df) (columns song_df)
               then Raised AnalysisException st2
               else
                 (case write_parquet spark st2 (out @ ''/songplays_table'') Overwrite
                         [''year'', ''month'']
                         (SongplaysTable
                            (songplays_table (sql spark) (rows df) (rows song_df))) of
                    Inl (e, st3) \<Rightarrow> Raised e st3
                  | Inr st3 \<Rightarrow> Returned st3)))"
  using assms by (simp add: process_log_data_def write_parquet_overwrite)


lemma process_log_data_statement_raises:
  assumes "read_log_json spark (inp @ ''/log_data/*/*/*.json'') = Inr df"
    and "resolves spark (columns df) ''page''"
    and "list_all (resolves spark (columns df)) user_columns"
    and "write_error spark (out @ ''/user_table'') = None"
    and "time_query_analyses spark (columns df)"
    and "tts (time_table (sql spark) (rows df)) out
           (st(out @ ''/user_table'' \<mapsto>
              \<lparr>partitionBy = [], contents = UserTable (user_table (rows df))\<rparr>))
         = Raised e st2"
  shows "process_log_data spark tts inp out st = Raised e st2"
  using assms(6) by (simp add: process_log_data_after_users [OF assms(1-5)])

lemma process_log_data_song_read_fails:
  assumes "read_log_json spark (inp @ ''/log_data/*/*/*.json'') = Inr df"
    and "resolves spark (columns df) ''page''"
    and "list_all (resolves spark (columns df)) user_columns"
    and "write_error spark (out @ ''/user_table'') = None"
    and "time_query_analyses spark (columns df)"
    and "tts (time_table (sql spark) (rows df)) out
           (st(out @ ''/user_table'' \<mapsto>
              \<lparr>partitionBy = [], contents = UserTable (user_table (rows df))\<rparr>))
         = Returned st2"
    and "read_song_json spark (inp @ ''/song_data/*/*/*/*.json'') = Inl e"
  shows "process_log_data spark tts inp out st = Raised e st2"
  using assms(6,7) by (simp add: process_log_data_after_users [OF assms(1-5)])

lemma process_log_data_songplays_unresolved:
  assumes "read_log_json spark (inp @ ''/log_data/*/*/*.json'') = Inr df"
    and "resolves spark (columns df) ''page''"
    and "list_all (resolves spark (columns df)) user_columns"
    and "write_error spark (out @ ''/user_table'') = None"
    and "time_query_analyses spark (columns df)"
    and "tts (time_table (sql spark) (rows df)) out
           (st(out @ ''/user_table'' \<mapsto>
              \<lparr>partitionBy = [], contents = UserTable (user_table (rows df))\<rparr>))
         = Returned st2"
    and "read_song_json spark (inp @ ''/song_data/*/*/*/*.json'') = Inr song_df"
    and "\<not> songplays_query_analyses spark (columns df) (columns song_df)"
  shows "process_log_data spark tts inp out st = Raised AnalysisException st2"
  using assms(6,7,8) by (simp add: process_log_data_after_users [OF assms(1-5)])

lemma process_log_data_songplays_write_fails:
  assumes "read_log_json spark (inp @ ''/log_data/*/*/*.json'') = Inr df"
    and "resolves spark (columns df) ''page''"
    and "list_all (resolves spark (columns df)) user_columns"
    and "write_error spark (out @ ''/user_table'') = None"
    and "time_query_analyses spark (columns df)"
    and "tts (time_table (sql spark) (rows df)) out
           (st(out @ ''/user_table'' \<mapsto>
              \<lparr>partitionBy = [], contents = UserTable (user_table (rows df))\<rparr>))
         = Returned st2"
    and "read_song_json spark (inp @ ''/song_data/*/*/*/*.json'') = Inr song_df"
    and "songplays_query_analyses spark (columns df) (columns song_df)"
    and "write_error spark (out @ ''/songplays_table'') = Some e"
  shows "process_log_data spark tts inp out st =
     Raised e (st2(out @ ''/songplays_table'' :=
       write_residue spark (out @ ''/songplays_table'') (st2 (out @ ''/songplays_table''))))"
  using assms(6,7,8,9)
  by (simp add: process_log_data_after_users [OF assms(1-5)] write_parquet_fails)

lemma process_log_data_ok:
  assumes "read_log_json spark (inp @ ''/log_data/*/*/*.json'') = Inr df"
    and "resolves spark (columns df) ''page''"
    and "list_all (resolves spark (columns df)) user_columns"
    and "write_error spark (out @ ''/user_table'') = None"
    and "time_query_analyses spark (columns df)"
    and "tts (time_table (sql spark) (rows df)) out
           (st(out @ ''/user_table'' \<mapsto>
              \<lparr>partitionBy = [], contents = UserTable (user_table (rows df))\<rparr>))
         = Returned st2"
    and "read_song_json spark (inp @ ''/song_data/*/*/*/*.json'') = Inr song_df"
    and "songplays_query_analyses spark (columns df) (columns song_df)"
    and "write_error spark (out @ ''/songplays_table'') = None"
  shows "process_log_data spark tts inp out st =
     Returned (st2(out @ ''/songplays_table'' \<mapsto>
       \<lparr>partitionBy = [''year'', ''month''],
        contents = SongplaysTable (songplays_table (sql spark) (rows df) (rows song_df))\<rparr>))"
  using assms(6,7,8,9)
  by (simp add: process_log_data_after_users [OF assms(1-5)] write_parquet_overwrite)

lemma main_no_session: "main (Inl e) tts st = Raised e st"
  by (simp add: main_def)

lemma main_song_raised:
  "process_song_data spark input_data output_data st = Raised e st' \<Longrightarrow>
     main (Inr spark) tts st = Raised e st'"
  by (simp add: main_def)

lemma main_log_raised:
  "process_song_data spark input_data output_data st = Returned st1 \<Longrightarrow>
   process_log_data spark tts input_data output_data st1 = Raised e st' \<Longrightarrow>
     main (Inr spark) tts st = Raised e st'"
  by (simp add: main_def)

lemma main_returned:
  "process_song_data spark input_data output_data st = Returned st1 \<Longrightarrow>
     main (Inr spark) tts st = process_log_data spark tts input_data output_data st1"
  by (simp add: main_def)

text \<open>
  Run as a program, the module never reaches \<open>main\<close>: the export of the credentials
  raises first, and the storage is as it was.
\<close>

lemma etl_raises: "\<exists>e. etl cfg env create_spark_session tts st = Raised e st"
  using export_credentials_never_returns [of cfg env] by (auto simp: etl_def)

text \<open>
  C1, as amended. Let \<open>main\<close> run in a session that reads both inputs, resolves the
  columns its statements name and accepts the four writes. It writes the songs dataset
  partitioned by year and artist_id, then the artists dataset and the users dataset
  with no partition column, each under the output path in overwrite mode, replacing
  what the path held. It then runs the statement of lines 105 to 107 on that storage;
  if the statement raises, so does \<open>main\<close>, and if it returns, \<open>main\<close> writes the
  songplays dataset partitioned by year and month, in overwrite mode, to the storage
  the statement left. What that statement does, and whether the script reaches
  \<open>main\<close>, are no part of the statement.
\<close>

theorem main_writes:
  assumes "read_song_json spark (input_data @ ''/song_data/*/*/*/*.json'') = Inr song_df"
    and "read_log_json spark (input_data @ ''/log_data/*/*/*.json'') = Inr df"
    and "list_all (resolves spark (columns song_df)) songs_columns"
    and "list_all (resolves spark (columns song_df)) artists_columns"
    and "resolves spark (columns df) ''page''"
    and "list_all (resolves spark (columns df)) user_columns"
    and "time_query_analyses spark (columns df)"
    and "songplays_query_analyses spark (columns df) (columns song_df)"
    and "write_error spark (output_data @ ''/songs_table'') = None"
    and "write_error spark (output_data @ ''/artists_table'') = None"
    and "write_error spark (output_data @ ''/user_table'') = None"
    and "write_error spark (output_data @ ''/songplays_table'') = None"
  shows "main (Inr spark) time_table_statement st =
     (case time_table_statement (time_table (sql spark) (rows df)) output_data
             (st(output_data @ ''/songs_table'' \<mapsto>
                   \<lparr>partitionBy = [''year'', ''artist_id''],
                    contents = SongsTable (songs_table (rows song_df))\<rparr>,
                 output_data @ ''/artists_table'' \<mapsto>
                   \<lparr>partitionBy = [],
                    contents = ArtistsTable (artists_table (rows song_df))\<rparr>,
                 output_data @ ''/user_table'' \<mapsto>
                   \<lparr>partitionBy = [], contents = UserTable (user_table (rows df))\<rparr>)) of
        Raised e st2 \<Rightarrow> Raised e st2
      | Returned st2 \<Rightarrow>
          Returned
            (st2(output_data @ ''/songplays_table'' \<mapsto>
               \<lparr>partitionBy = [''year'', ''month''],
                contents =
                  SongplaysTable (songplays_table (sql spark) (rows df) (rows song_df))\<rparr>)))"
proof -
  let ?st1 = "st(output_data @ ''/songs_table'' \<mapsto>
                   \<lparr>partitionBy = [''year'', ''artist_id''],
                    contents = SongsTable (songs_table (rows song_df))\<rparr>,
                 output_data @ ''/artists_table'' \<mapsto>
                   \<lparr>partitionBy = [],
                    contents = ArtistsTable (artists_table (rows song_df))\<rparr>)"
  have song: "process_song_data spark input_data output_data st = Returned ?st1"
    by (rule process_song_data_ok [OF assms(1,3,9,4,10)])
  have "main (Inr spark) time_table_statement st
          = process_log_data spark time_table_statement input_data output_data ?st1"
    by (rule main_returned [OF song])
  also have "\<dots> =
     (case time_table_statement (time_table (sql spark) (rows df)) output_data
             (?st1(output_data @ ''/user_table'' \<mapsto>
                \<lparr>partitionBy = [], contents = UserTable (user_table (rows df))\<rparr>)) of
        Raised e st2 \<Rightarrow> Raised e st2
      | Returned st2 \<Rightarrow>
          Returned
            (st2(output_data @ ''/songplays_table'' \<mapsto>
               \<lparr>partitionBy = [''year'', ''month''],
                contents =
                  SongplaysTable (songplays_table (sql spark) (rows df) (rows song_df))\<rparr>)))"
    using assms(1,8,12)
    by (simp add: process_log_data_after_users [OF assms(2,5,6,11,7)] write_parquet_overwrite
        split: result.splits)
  finally show ?thesis .
qed


section \<open>Failures\<close>

text \<open>
  C7. No routine catches an exception. At every point where \<open>process_song_data\<close> or
  \<open>process_log_data\<close> can fail (reading an input, resolving the columns of a
  \<^verbatim>\<open>select\<close>, of \<^verbatim>\<open>df['page']\<close> or of a query, writing a table, the statement of lines
  105 to 107) the routine ends with that very exception, and the storage it leaves
  holds every dataset written before: only the path of a failed write is as the engine
  left it. A session that cannot be created and an exception of either routine end
  \<open>main\<close> with the same exception and the same storage.
\<close>

theorem errors_propagate_uncaught:
  "(read_song_json spark (inp @ ''/song_data/*/*/*/*.json'') = Inl e \<longrightarrow>
      process_song_data spark inp out st = Raised e st)
   \<and> (read_song_json spark (inp @ ''/song_data/*/*/*/*.json'') = Inr song_df \<longrightarrow>
        (\<not> list_all (resolves spark (columns song_df)) songs_columns \<longrightarrow>
           process_song_data spark inp out st = Raised AnalysisException st)
        \<and> (list_all (resolves spark (columns song_df)) songs_columns \<longrightarrow>
             (write_error spark (out @ ''/songs_table'') = Some e \<longrightarrow>
                process_song_data spark inp out st =
                  Raised e (st(out @ ''/songs_table'' :=
                    write_residue spark (out @ ''/songs_table'')
                      (st (out @ ''/songs_table'')))))
             \<and> (write_error spark (out @ ''/songs_table'') = None \<longrightarrow>
                  (\<not> list_all (resolves spark (columns song_df)) artists_columns \<longrightarrow>
                     process_song_data spark inp out st =
                       Raised AnalysisException
                         (st(out @ ''/songs_table'' \<mapsto>
                            \<lparr>partitionBy = [''year'', ''artist_id''],
                       contents = SongsTable (songs_table (rows song_df))\<rparr>)))
                  \<and> (list_all (resolves spark (columns song_df)) artists_columns \<longrightarrow>
                       write_error spark (out @ ''/artists_table'') = Some e \<longrightarrow>
                       process_song_data spark inp out st =
                         Raised e
                           ((st(out @ ''/songs_table'' \<mapsto>
                               \<lparr>partitionBy = [''year'', ''artist_id''],
                       contents = SongsTable (songs_table (rows song_df))\<rparr>))
                            (out @ ''/artists_table'' :=
                               write_residue spark (out @ ''/artists_table'')
                                 ((st(out @ ''/songs_table'' \<mapsto>
                                     \<lparr>partitionBy = [''year'', ''artist_id''],
                       contents = SongsTable (songs_table (rows song_df))\<rparr>))
                                  (out @ ''/artists_table''))))))))
   \<and> (read_log_json spark (inp @ ''/log_data/*/*/*.json'') = Inl e \<longrightarrow>
        process_log_data spark tts inp out st = Raised e st)
   \<and> (read_log_json spark (inp @ ''/log_data/*/*/*.json'') = Inr df \<longrightarrow>
        (\<not> resolves spark (columns df) ''page'' \<longrightarrow>
           process_log_data spark tts inp out st = Raised AnalysisException st)
        \<and> (resolves spark (columns df) ''page'' \<longrightarrow>
             (\<not> list_all (resolves spark (columns df)) user_columns \<longrightarrow>
                process_log_data spark tts inp out st = Raised AnalysisException st)
             \<and> (list_all (resolves spark (columns df)) user_columns \<longrightarrow>
                  (write_error spark (out @ ''/user_table'') = Some e \<longrightarrow>
                     process_log_data spark tts inp out st =
                       Raised e (st(out @ ''/user_table'' :=
                         write_residue spark (out @ ''/user_table'')
                           (st (out @ ''/user_table'')))))
                  \<and> (write_error spark (out @ ''/user_table'') = None \<longrightarrow>
                       (\<not> time_query_analyses spark (columns df) \<longrightarrow>
                          process_log_data spark tts inp out st =
                            Raised AnalysisException
                              (st(out @ ''/user_table'' \<mapsto>
                          \<lparr>partitionBy = [],
                           contents = UserTable (user_table (rows df))\<rparr>)))
                       \<and> (time_query_analyses spark (columns df) \<longrightarrow>
                            (tts (time_table (sql spark) (rows df)) out
                               (st(out @ ''/user_table'' \<mapsto>
                          \<lparr>partitionBy = [],
                           contents = UserTable (user_table (rows df))\<rparr>))
                               = Raised e st_time \<longrightarrow>
                             process_log_data spark tts inp out st = Raised e st_time)
                            \<and> (tts (time_table (sql spark) (rows df)) out
                                  (st(out @ ''/user_table'' \<mapsto>
                          \<lparr>partitionBy = [],
                           contents = UserTable (user_table (rows df))\<rparr>))
                                  = Returned st_time \<longrightarrow>
                                 (read_song_json spark (inp @ ''/song_data/*/*/*/*.json'') = Inl e \<longrightarrow>
                                    process_log_data spark tts inp out st = Raised e st_time)
                                 \<and> (read_song_json spark (inp @ ''/song_data/*/*/*/*.json'') = Inr song_df \<longrightarrow>
                                      (\<not> songplays_query_analyses spark (columns df)
                                            (columns song_df) \<longrightarrow>
                                         process_log_data spark tts inp out st =
                                           Raised AnalysisException st_time)
                                      \<and> (songplays_query_analyses spark (columns df)
                                            (columns song_df) \<longrightarrow>
                                           write_error spark (out @ ''/songplays_table'')
                                             = Some e \<longrightarrow>
                                           process_log_data spark tts inp out st =
                                             Raised e
                                               (st_time(out @ ''/songplays_table'' :=
                                                  write_residue spark
                                                    (out @ ''/songplays_table'')
                                                    (st_time (out @ ''/songplays_table''))))))))))))
   \<and> main (Inl e) tts st = Raised e st
   \<and> (process_song_data spark input_data output_data st = Raised e st_raised \<longrightarrow>
        main (Inr spark) tts st = Raised e st_raised)
   \<and> (process_song_data spark input_data output_data st = Returned st_songs \<longrightarrow>
        process_log_data spark tts input_data output_data st_songs = Raised e st_raised \<longrightarrow>
        main (Inr spark) tts st = Raised e st_raised)"
proof (intro conjI impI)
qed (rule process_song_data_read_fails process_song_data_songs_unresolved
      process_song_data_songs_write_fails process_song_data_artists_unresolved
      process_song_data_artists_write_fails process_log_data_read_fails
      process_log_data_page_unresolved process_log_data_user_unresolved
      process_log_data_user_write_fails process_log_data_time_unresolved
      process_log_data_statement_raises process_log_data_song_read_fails
      process_log_data_songplays_unresolved process_log_data_songplays_write_fails
      main_no_session main_song_raised main_log_raised; assumption)+

section \<open>The sample sessions\<close>

lemma sample_session_reads:
  "read_song_json sample_session (input_data @ ''/song_data/*/*/*/*.json'') = Inr sample_song_df"
  "read_log_json sample_session (input_data @ ''/log_data/*/*/*.json'') = Inr sample_log_df"
  "write_error sample_session p = None"
  by (simp_all add: sample_session_def input_data_def)

lemma sample_session_resolves:
  "list_all (resolves sample_session (columns sample_song_df)) songs_columns"
  "list_all (resolves sample_session (columns sample_song_df)) artists_columns"
  "resolves sample_session (columns sample_log_df) ''page''"
  "list_all (resolves sample_session (columns sample_log_df)) user_columns"
  "time_query_analyses sample_session (columns sample_log_df)"
  "songplays_query_analyses sample_session (columns sample_log_df) (columns sample_song_df)"
  by code_simp+


lemma failing_session_reads:
  "read_song_json failing_session (input_data @ ''/song_data/*/*/*/*.json'') = Inr sample_song_df"
  "write_error failing_session (output_data @ ''/songs_table'') = None"
  "write_error failing_session (output_data @ ''/artists_table'')
     = Some (EngineError ''Access Denied'')"
  "write_residue failing_session p d = None"
  by (simp_all add: failing_session_def sample_session_def input_data_def output_data_def)

lemma failing_session_resolves:
  "list_all (resolves failing_session (columns sample_song_df)) songs_columns"
  "list_all (resolves failing_session (columns sample_song_df)) artists_columns"
  by code_simp+

lemma empty_session_facts:
  "read_song_json empty_session (input_data @ ''/song_data/*/*/*/*.json'')
     = Inr \<lparr>columns = [], rows = []\<rparr>"
  "\<not> list_all (resolves empty_session (columns \<lparr>columns = [], rows = []\<rparr>)) songs_columns"
  by (simp_all add: empty_session_def sample_session_def resolves_def songs_columns_def)

text \<open>
  C1 as it is written fails on the sample session: the artists dataset that
  \<open>process_song_data\<close> writes has no partition column.
\<close>

theorem main_writes_counterexample:
  "map_option partitionBy
     (storage_of (process_song_data sample_session input_data output_data Map.empty)
        (output_data @ ''/artists_table''))
   = Some []"
  using process_song_data_ok [OF sample_session_reads(1) sample_session_resolves(1)
      sample_session_reads(3) sample_session_resolves(2) sample_session_reads(3),
      of output_data Map.empty]
  by simp


theorem main_writes_witness:
  "main (Inr sample_session) (sibling_write sample_session)
     [output_data @ ''/songs_table'' \<mapsto> \<lparr>partitionBy = [], contents = SongsTable []\<rparr>] =
   Returned
     ([output_data @ ''/songs_table'' \<mapsto> \<lparr>partitionBy = [], contents = SongsTable []\<rparr>]
      (output_data @ ''/songs_table'' \<mapsto>
         \<lparr>partitionBy = [''year'', ''artist_id''],
          contents = SongsTable (songs_table (rows sample_song_df))\<rparr>,
       output_data @ ''/artists_table'' \<mapsto>
         \<lparr>partitionBy = [], contents = ArtistsTable (artists_table (rows sample_song_df))\<rparr>,
       output_data @ ''/user_table'' \<mapsto>
         \<lparr>partitionBy = [], contents = UserTable (user_table (rows sample_log_df))\<rparr>,
       output_data @ ''/time_table'' \<mapsto>
         \<lparr>partitionBy = [''year'', ''month''],
          contents = TimeTable (time_table (sql sample_session) (rows sample_log_df))\<rparr>,
       output_data @ ''/songplays_table'' \<mapsto>
         \<lparr>partitionBy = [''year'', ''month''],
          contents =
            SongplaysTable
              (songplays_table (sql sample_session) (rows sample_log_df)
                 (rows sample_song_df))\<rparr>))"
proof -
  have t: "sibling_write sample_session tbl out st =
      Returned (st(out @ ''/time_table'' \<mapsto>
        \<lparr>partitionBy = [''year'', ''month''], contents = TimeTable tbl\<rparr>))" for tbl out st
    by (simp add: sibling_write_def write_parquet_overwrite sample_session_reads(3))
  show ?thesis
    unfolding main_writes [OF sample_session_reads(1,2) sample_session_resolves
        sample_session_reads(3) sample_session_reads(3) sample_session_reads(3)
        sample_session_reads(3)] t
    by (simp only: result.case)
qed


theorem errors_propagate_uncaught_witness:
  "process_song_data failing_session input_data output_data Map.empty =
     Raised (EngineError ''Access Denied'')
       ([output_data @ ''/songs_table'' \<mapsto>
           \<lparr>partitionBy = [''year'', ''artist_id''],
            contents = SongsTable (songs_table (rows sample_song_df))\<rparr>]
        (output_data @ ''/artists_table'' := None))
   \<and> main (Inr failing_session) (sibling_write failing_session) Map.empty =
     Raised (EngineError ''Access Denied'')
       ([output_data @ ''/songs_table'' \<mapsto>
           \<lparr>partitionBy = [''year'', ''artist_id''],
            contents = SongsTable (songs_table (rows sample_song_df))\<rparr>]
        (output_data @ ''/artists_table'' := None))
   \<and> process_song_data empty_session input_data output_data Map.empty =
     Raised AnalysisException Map.empty
   \<and> main (Inr empty_session) (sibling_write empty_session) Map.empty =
     Raised AnalysisException Map.empty"
proof -
  note f = errors_propagate_uncaught
    [where spark = failing_session and inp = input_data and out = output_data
       and st = Map.empty and song_df = sample_song_df
       and e = "EngineError ''Access Denied''" and tts = "sibling_write failing_session"]
  note song_part = f [THEN conjunct2, THEN conjunct1, THEN mp, OF failing_session_reads(1)]
  note after_songs = song_part [THEN conjunct2, THEN mp, OF failing_session_resolves(1),
      THEN conjunct2, THEN mp, OF failing_session_reads(2)]
  note raised = after_songs [THEN conjunct2, THEN mp, OF failing_session_resolves(2),
      THEN mp, OF failing_session_reads(3)]
  have a: "process_song_data failing_session input_data output_data Map.empty =
     Raised (EngineError ''Access Denied'')
       ([output_data @ ''/songs_table'' \<mapsto>
           \<lparr>partitionBy = [''year'', ''artist_id''],
            contents = SongsTable (songs_table (rows sample_song_df))\<rparr>]
        (output_data @ ''/artists_table'' := None))"
    using raised by (simp only: failing_session_reads(4))
  note main_part = f [THEN conjunct2, THEN conjunct2, THEN conjunct2, THEN conjunct2,
      THEN conjunct2, THEN conjunct1]
  have b: "main (Inr failing_session) (sibling_write failing_session) Map.empty =
     Raised (EngineError ''Access Denied'')
       ([output_data @ ''/songs_table'' \<mapsto>
           \<lparr>partitionBy = [''year'', ''artist_id''],
            contents = SongsTable (songs_table (rows sample_song_df))\<rparr>]
        (output_data @ ''/artists_table'' := None))"
    by (rule main_part [THEN mp, OF a])
  note g = errors_propagate_uncaught
    [where spark = empty_session and inp = input_data and out = output_data
       and st = Map.empty and song_df = "\<lparr>columns = [], rows = []\<rparr>"
       and e = AnalysisException and tts = "sibling_write empty_session"]
  have c: "process_song_data empty_session input_data output_data Map.empty =
     Raised AnalysisException Map.empty"
    by (rule g [THEN conjunct2, THEN conjunct1, THEN mp, OF empty_session_facts(1),
          THEN conjunct1, THEN mp, OF empty_session_facts(2)])
  have d: "main (Inr empty_session) (sibling_write empty_session) Map.empty =
     Raised AnalysisException Map.empty"
    by (rule g [THEN conjunct2, THEN conjunct2, THEN conjunct2, THEN conjunct2,
          THEN conjunct2, THEN conjunct1, THEN mp, OF c])
  from a b c d show ?thesis by (intro conjI)
qed

end
